theory Spec2Isabelle
  imports Main "HOL-Library.Product_Lexorder"
begin

section \<open>Data model\<close>

text \<open>
  A timestamp is the tuple (year, month, day, hour, minute, second, microsecond) of a
  UTC datetime; Python compares two such datetimes field by field in this order, which
  is the lexicographic order on the tuple.
\<close>

type_synonym datetime = "nat \<times> nat \<times> nat \<times> nat \<times> nat \<times> nat \<times> nat"

text \<open>
  The objects of a bundle are dynamically typed in the source and are told apart by
  their \<open>type\<close> attribute. One record carries the attributes the two programs read;
  \<open>created_by_ref\<close> is optional in STIX and is \<open>None\<close> where the object has none.
\<close>

record stix_obj =
  obj_type :: string
  obj_id :: string
  name :: string
  identity_class :: string
  contact_information :: string
  object_refs :: "string list"
  opinion :: string
  explanation :: string
  created :: datetime
  created_by_ref :: "string option"

datatype error =
    KeyError string
  | ValueError
  | IndexError
  | AttributeError
  | InvalidValueError
  | FileNotFoundError string
  | OSError string
  | FileError string

section \<open>The query layer used by \<open>read_intel.py\<close>\<close>

text \<open>
  Modelled from the spec: \<open>stix2.MemoryStore\<close> and \<open>stix2.Filter\<close> of the external
  model library, which \<open>read_intel.py\<close> calls. The query index is a lookup structure
  over the bundle's objects, in bundle order, that supports filtering by type and
  "object_refs contains X" lookups, and resolves a creator through the created-by
  relation.
\<close>

type_synonym memory_store = "stix_obj list"

definition MemoryStore :: "stix_obj list \<Rightarrow> memory_store" where
  "MemoryStore objects = objects"

datatype filter_spec = Filter string string string

fun check_filter :: "filter_spec \<Rightarrow> stix_obj \<Rightarrow> bool" where
  "check_filter (Filter property operator v) obj =
     (if property = ''type'' \<and> operator = ''='' then obj_type obj = v
      else if property = ''object_refs'' \<and> operator = ''contains''
        then v \<in> set (object_refs obj)
      else False)"

definition query :: "memory_store \<Rightarrow> filter_spec list \<Rightarrow> stix_obj list" where
  "query store filters = filter (\<lambda>obj. list_all (\<lambda>f. check_filter f obj) filters) store"

definition store_get :: "memory_store \<Rightarrow> string \<Rightarrow> stix_obj option" where
  "store_get store ident = find (\<lambda>obj. obj_id obj = ident) store"

definition creator_of :: "memory_store \<Rightarrow> stix_obj \<Rightarrow> stix_obj option" where
  "creator_of store obj =
     (case created_by_ref obj of
        None \<Rightarrow> None
      | Some creator_id \<Rightarrow> if creator_id = [] then None else store_get store creator_id)"

text \<open>
  \<open>list.sort(key=..., reverse=True)\<close>: CPython reverses the list, sorts it stably in
  ascending key order and reverses the result, so that elements with equal keys keep
  their original relative order.
\<close>

definition sort_reverse :: "('a \<Rightarrow> 'k::linorder) \<Rightarrow> 'a list \<Rightarrow> 'a list" where
  "sort_reverse key xs = rev (sort_key key (rev xs))"

text \<open>
  The query and the sort of \<open>IndicatorViewerForm.set_indicator\<close> (the specification's
  \<open>opinionsFor\<close>).
\<close>

definition opinionsFor :: "memory_store \<Rightarrow> stix_obj \<Rightarrow> stix_obj list" where
  "opinionsFor store indicator =
     sort_reverse created
       (query store [Filter ''type'' ''='' ''opinion'',
                     Filter ''object_refs'' ''contains'' (obj_id indicator)])"

section \<open>The renderer of \<open>read_intel.py\<close>\<close>

text \<open>
  Python's string methods, on the characters of ASCII. \<open>str.title\<close> upper-cases a
  letter that follows a character without case and lower-cases a letter that follows a
  cased one.
\<close>

definition is_lower :: "char \<Rightarrow> bool" where
  "is_lower c = (97 \<le> (of_char c :: nat) \<and> (of_char c :: nat) \<le> 122)"

definition is_upper :: "char \<Rightarrow> bool" where
  "is_upper c = (65 \<le> (of_char c :: nat) \<and> (of_char c :: nat) \<le> 90)"

definition to_upper :: "char \<Rightarrow> char" where
  "to_upper c = (if is_lower c then char_of ((of_char c :: nat) - 32) else c)"

definition to_lower :: "char \<Rightarrow> char" where
  "to_lower c = (if is_upper c then char_of ((of_char c :: nat) + 32) else c)"

fun title_from :: "bool \<Rightarrow> string \<Rightarrow> string" where
  "title_from previous_is_cased [] = []"
| "title_from previous_is_cased (c # cs) =
     (if is_lower c then
        (if previous_is_cased then c else to_upper c) # title_from True cs
      else if is_upper c then
        (if previous_is_cased then to_lower c else c) # title_from True cs
      else c # title_from False cs)"

definition title :: "string \<Rightarrow> string" where
  "title s = title_from False s"

definition replace :: "char \<Rightarrow> char \<Rightarrow> string \<Rightarrow> string" where
  "replace old new s = map (\<lambda>c. if c = old then new else c) s"

text \<open>
  \<open>str.splitlines\<close>: a line ends at a line boundary (\<open>\r\n\<close> counts as one), the
  boundaries are not kept, and no empty last line is produced after a final boundary.
\<close>

definition is_linebreak :: "char \<Rightarrow> bool" where
  "is_linebreak c = (c \<in> set [CHR 0x0A, CHR 0x0D, CHR 0x0B, CHR 0x0C,
                                 CHR 0x1C, CHR 0x1D, CHR 0x1E, CHR 0x85])"

fun splitlines_from :: "string \<Rightarrow> string \<Rightarrow> string list" where
  "splitlines_from line [] = (if line = [] then [] else [line])"
| "splitlines_from line [c] =
     (if is_linebreak c then [line] else [line @ [c]])"
| "splitlines_from line (c # d # cs) =
     (if c = CHR 0x0D \<and> d = CHR 0x0A then line # splitlines_from [] cs
      else if is_linebreak c then line # splitlines_from [] (d # cs)
      else splitlines_from (line @ [c]) (d # cs))"

definition splitlines :: "string \<Rightarrow> string list" where
  "splitlines s = splitlines_from [] s"

fun join :: "string \<Rightarrow> string list \<Rightarrow> string" where
  "join sep [] = []"
| "join sep [x] = x"
| "join sep (x # y # ys) = x @ sep @ join sep (y # ys)"

text \<open>
  \<open>strftime('%Y-%m-%d %H:%M:%S')\<close>: the year as four decimal digits, every other field
  as two, zero-padded.
\<close>

definition digit :: "nat \<Rightarrow> char" where
  "digit d = char_of (48 + d mod 10)"

definition digits2 :: "nat \<Rightarrow> string" where
  "digits2 n = [digit (n div 10), digit n]"

definition digits4 :: "nat \<Rightarrow> string" where
  "digits4 n = [digit (n div 1000), digit (n div 100), digit (n div 10), digit n]"

fun strftime :: "datetime \<Rightarrow> string" where
  "strftime (year, month, day, hour, minute, second, microsecond) =
     digits4 year @ ''-'' @ digits2 month @ ''-'' @ digits2 day @ '' '' @
     digits2 hour @ '':'' @ digits2 minute @ '':'' @ digits2 second"

text \<open>
  The viewer form: the chosen indicator, and the title and the lines of its pager
  buffer.
\<close>

record viewer_form =
  viewer_store :: memory_store
  viewer_indicator :: "stix_obj option"
  buffer_name :: string
  buffer_values :: "string list"

definition indent :: string where
  "indent = ''    ''"

definition explanation_text :: "stix_obj \<Rightarrow> string" where
  "explanation_text op =
     indent @ join [CHR 0x0A] (map (\<lambda>line. indent @ line) (splitlines (explanation op)))"

text \<open>The seven lines that the loop body hands to the buffer for one opinion.\<close>

definition opinion_block :: "stix_obj \<Rightarrow> stix_obj \<Rightarrow> string list" where
  "opinion_block creator op =
     (let opinion_text = title (replace CHR ''-'' CHR '' '' (opinion op));
          evaluated_at = strftime (created op)
      in [''# '' @ name creator @ '' ('' @ title (identity_class creator) @ '')'',
          ''  Opinion on effectiveness: '' @ opinion_text,
          ''  Evaluated at: '' @ evaluated_at,
          [],
          explanation_text op,
          [],
          []])"

text \<open>
  The loop over the opinions. \<open>creator_of\<close> yields \<open>None\<close> for an opinion without a
  resolvable creator, and reading \<open>creator.name\<close> then raises \<open>AttributeError\<close>.
\<close>

fun render_opinions :: "memory_store \<Rightarrow> stix_obj list \<Rightarrow> string list \<Rightarrow> error + string list" where
  "render_opinions st [] buf = Inr buf"
| "render_opinions st (op # ops) buf =
     (case creator_of st op of
        None \<Rightarrow> Inl AttributeError
      | Some creator \<Rightarrow> render_opinions st ops (buf @ opinion_block creator op))"

definition IndicatorViewerForm_set_indicator ::
    "stix_obj option \<Rightarrow> viewer_form \<Rightarrow> error + viewer_form" where
  "IndicatorViewerForm_set_indicator ind form =
     (case ind of
        None \<Rightarrow> Inr form
      | Some i \<Rightarrow>
          (case render_opinions (viewer_store form) (opinionsFor (viewer_store form) i) [] of
             Inl e \<Rightarrow> Inl e
           | Inr buf \<Rightarrow>
               Inr (form\<lparr>viewer_indicator := Some i,
                         buffer_name := ''Opinions: '' @ name i @ '' ('' @ obj_id i @ '')'',
                         buffer_values := buf\<rparr>)))"

section \<open>Files, as \<open>judge_intel.py\<close> uses them\<close>

text \<open>
  A file system holds the content stored at each existing path and tells which paths
  can be opened for writing (the directory exists and the permissions allow it). A file
  object is a path with the mode it was opened in and a position. \<open>truncate()\<close> cuts
  the content at the position of the file object, and \<open>write\<close> overwrites from that
  position on and advances it.
\<close>

record file_system =
  contents :: "string \<rightharpoonup> string"
  writable :: "string \<Rightarrow> bool"

record file_handle =
  fh_name :: string
  fh_mode :: string
  fh_pos :: nat

definition content_of :: "file_system \<Rightarrow> string \<Rightarrow> string" where
  "content_of fs path = (case contents fs path of None \<Rightarrow> [] | Some c \<Rightarrow> c)"

text \<open>
  \<open>open(path, mode)\<close>. Mode \<open>r+\<close> needs an existing file that may be written and
  leaves its content as it is; mode \<open>w\<close> creates the file or empties it. Both start at
  position 0, and both raise where the path cannot be opened.
\<close>

definition open_file :: "string \<Rightarrow> string \<Rightarrow> file_system \<Rightarrow> error + (file_handle \<times> file_system)" where
  "open_file path mode fs =
     (if mode = ''r+'' then
        (case contents fs path of
           None \<Rightarrow> Inl (FileNotFoundError path)
         | Some c \<Rightarrow>
             if writable fs path
             then Inr (\<lparr>fh_name = path, fh_mode = ''r+'', fh_pos = 0\<rparr>, fs)
             else Inl (OSError path))
      else if mode = ''w'' then
        (if writable fs path
         then Inr (\<lparr>fh_name = path, fh_mode = ''w'', fh_pos = 0\<rparr>,
                   fs\<lparr>contents := (contents fs)(path \<mapsto> [])\<rparr>)
         else Inl (OSError path))
      else Inl ValueError)"

definition file_truncate :: "file_handle \<Rightarrow> file_system \<Rightarrow> file_system" where
  "file_truncate h fs =
     (let c = content_of fs (fh_name h)
      in fs\<lparr>contents := (contents fs)
              (fh_name h \<mapsto> take (fh_pos h) c @ replicate (fh_pos h - length c) (CHR 0x00))\<rparr>)"

definition file_write :: "file_handle \<Rightarrow> string \<Rightarrow> file_system \<Rightarrow> file_handle \<times> file_system" where
  "file_write h text fs =
     (let c = content_of fs (fh_name h);
          before = take (fh_pos h) c @ replicate (fh_pos h - length c) (CHR 0x00);
          after = drop (fh_pos h + length text) c
      in (h\<lparr>fh_pos := fh_pos h + length text\<rparr>,
          fs\<lparr>contents := (contents fs)(fh_name h \<mapsto> before @ text @ after)\<rparr>))"

text \<open>
  The \<open>--output\<close> option is a \<open>click.File('w')\<close>, which click opens only when the file
  object is first used, and whose failure to open click reports as \<open>FileError\<close>;
  without the option \<open>judge_intel\<close> opens the input path with mode \<open>r+\<close> at once.
\<close>

datatype output_file = Opened file_handle | Lazy string

definition judge_intel_output ::
    "string \<Rightarrow> string option \<Rightarrow> file_system \<Rightarrow> error + (output_file \<times> file_system)" where
  "judge_intel_output input_name output_name fs =
     (case output_name of
        Some path \<Rightarrow> Inr (Lazy path, fs)
      | None \<Rightarrow>
          (case open_file input_name ''r+'' fs of
             Inl e \<Rightarrow> Inl e
           | Inr (h, fs') \<Rightarrow> Inr (Opened h, fs')))"

definition use_output :: "output_file \<Rightarrow> file_system \<Rightarrow> error + (file_handle \<times> file_system)" where
  "use_output out fs =
     (case out of
        Opened h \<Rightarrow> Inr (h, fs)
      | Lazy path \<Rightarrow>
          (case open_file path ''w'' fs of
             Inl e \<Rightarrow> Inl (FileError path)
           | Inr opened \<Rightarrow> Inr opened))"

text \<open>
  \<open>save_bundle\<close>. The serializer is the model library's \<open>bundle.serialize\<close>; it is a
  parameter, called with \<open>pretty=True\<close>. The first use of the output, \<open>truncate()\<close>,
  opens a lazy file.
\<close>

definition save_bundle ::
    "(bool \<Rightarrow> stix_obj list \<Rightarrow> string) \<Rightarrow> stix_obj list \<Rightarrow> output_file \<Rightarrow> file_system
       \<Rightarrow> error + (output_file \<times> file_system)" where
  "save_bundle serialize objects out fs =
     (let content = serialize True objects
      in case use_output out fs of
           Inl e \<Rightarrow> Inl e
         | Inr (h, fs1) \<Rightarrow>
             (let fs2 = file_truncate h fs1;
                  (h', fs3) = file_write h content fs2
              in Inr (Opened h', fs3)))"

section \<open>The authoring workflow of \<open>judge_intel.py\<close>\<close>

text \<open>
  How a handler ends: the form loop goes on, the process exits through \<open>sys.exit\<close>, or
  an exception leaves the handler.
\<close>

datatype outcome = Running | SystemExit nat | Raised error

text \<open>
  The application with its four forms and their widgets. \<open>forms\<close> holds the ids under
  which \<open>onStart\<close> registers the forms, \<open>next_active_form\<close> the id that the form
  manager shows next. A selection widget keeps the indices of the check-marked rows.
\<close>

record app =
  bundle_objects :: "stix_obj list"
  identity :: "stix_obj option"
  forms :: "string list"
  next_active_form :: string
  identity_values :: "stix_obj option list"
  identity_value :: "nat list"
  entry_name :: string
  entry_email :: string
  provided_indicators :: "stix_obj list"
  eval_indicator :: "stix_obj option"
  eval_name :: string
  opinion_values :: "string list"
  opinion_value :: "nat list"
  explanation_value :: string
  output_target :: output_file
  file_store :: file_system

text \<open>
  The form manager of the widget toolkit looks the next form up in its registry; an id
  that was never registered raises \<open>KeyError\<close> there.
\<close>

definition switchForm :: "string \<Rightarrow> app \<Rightarrow> outcome \<times> app" where
  "switchForm fmid s =
     (if fmid \<in> set (forms s) then (Running, s\<lparr>next_active_form := fmid\<rparr>)
      else (Raised (KeyError fmid), s\<lparr>next_active_form := fmid\<rparr>))"

text \<open>
  The toolkit's \<open>get_selected_objects\<close>. The multi-select widget of the identity
  screen yields \<open>None\<close> when no row is check-marked and otherwise the values at the
  check-marked indices; the select-one widget of the opinion menu yields the list of
  the values at the selected indices, which is empty when nothing is selected.
\<close>

fun values_at :: "'a list \<Rightarrow> nat list \<Rightarrow> error + 'a list" where
  "values_at vs [] = Inr []"
| "values_at vs (i # is) =
     (if i < length vs then
        (case values_at vs is of Inl e \<Rightarrow> Inl e | Inr xs \<Rightarrow> Inr (vs ! i # xs))
      else Inl IndexError)"

definition get_selected_objects :: "'a list \<Rightarrow> nat list \<Rightarrow> error + 'a list option" where
  "get_selected_objects vs v =
     (if v = [] then Inr None
      else case values_at vs v of Inl e \<Rightarrow> Inl e | Inr xs \<Rightarrow> Inr (Some xs))"

definition SelectOne_get_selected_objects :: "'a list \<Rightarrow> nat list \<Rightarrow> error + 'a list" where
  "SelectOne_get_selected_objects vs v = values_at vs v"

text \<open>
  The unpacking \<open>(x,) = objects\<close> of a list: \<open>ValueError\<close> unless the list has
  exactly one element.
\<close>

fun unpack1 :: "'a list \<Rightarrow> error + 'a" where
  "unpack1 [x] = Inr x"
| "unpack1 xs = Inl ValueError"

text \<open>
  The constructors of the model library. The identifier and the creation time of a new
  object come from the environment and are parameters. A reference given as an object
  is stored as that object's identifier.
\<close>

definition Identity :: "string \<Rightarrow> datetime \<Rightarrow> string \<Rightarrow> string \<Rightarrow> string \<Rightarrow> stix_obj" where
  "Identity new_id now cls nm contact =
     \<lparr>obj_type = ''identity'', obj_id = new_id, name = nm, identity_class = cls,
      contact_information = contact, object_refs = [], opinion = [], explanation = [],
      created = now, created_by_ref = None\<rparr>"

fun clean_refs :: "stix_obj option list \<Rightarrow> error + string list" where
  "clean_refs [] = Inr []"
| "clean_refs (None # rs) = Inl InvalidValueError"
| "clean_refs (Some obj # rs) =
     (case clean_refs rs of Inl e \<Rightarrow> Inl e | Inr ids \<Rightarrow> Inr (obj_id obj # ids))"

definition Opinion ::
    "string \<Rightarrow> datetime \<Rightarrow> stix_obj option list \<Rightarrow> string \<Rightarrow> string \<Rightarrow> error + stix_obj" where
  "Opinion new_id now refs value text =
     (case clean_refs refs of
        Inl e \<Rightarrow> Inl e
      | Inr ids \<Rightarrow>
          Inr \<lparr>obj_type = ''opinion'', obj_id = new_id, name = [], identity_class = [],
               contact_information = [], object_refs = ids, opinion = value,
               explanation = text, created = now, created_by_ref = None\<rparr>)"

text \<open>
  \<open>IndicatorEvaluationApplication.__init__\<close> and \<open>onStart\<close>. \<open>addForm\<close> builds each
  form at once, so the selection lists are computed from the bundle as it is at start.
  The allowed opinion values are read from the model library and are a parameter.
\<close>

definition IndicatorEvaluationApplication ::
    "stix_obj list \<Rightarrow> output_file \<Rightarrow> file_system \<Rightarrow> app" where
  "IndicatorEvaluationApplication objects out fs =
     \<lparr>bundle_objects = objects, identity = None, forms = [], next_active_form = ''MAIN'',
      identity_values = [], identity_value = [], entry_name = [], entry_email = [],
      provided_indicators = [], eval_indicator = None, eval_name = [],
      opinion_values = [], opinion_value = [], explanation_value = [],
      output_target = out, file_store = fs\<rparr>"

definition onStart :: "string list \<Rightarrow> app \<Rightarrow> app" where
  "onStart allowed s =
     s\<lparr>forms := [''MAIN'', ''NEW_IDENTITY'', ''INDICATORS'', ''EVALUATION''],
       identity_values :=
         None # map Some (filter (\<lambda>obj. obj_type obj = ''identity'') (bundle_objects s)),
       provided_indicators :=
         filter (\<lambda>obj. obj_type obj = ''indicator'') (bundle_objects s),
       opinion_values := allowed\<rparr>"

definition set_identity :: "stix_obj \<Rightarrow> app \<Rightarrow> app" where
  "set_identity ident s =
     s\<lparr>bundle_objects := bundle_objects s @ [ident], identity := Some ident\<rparr>"

definition on_identity_selected :: "stix_obj \<Rightarrow> app \<Rightarrow> outcome \<times> app" where
  "on_identity_selected ident s = switchForm ''INDICATORS'' (set_identity ident s)"

subsection \<open>The identity selection form\<close>

definition IdentitySelectionForm_on_cancel :: "app \<Rightarrow> outcome \<times> app" where
  "IdentitySelectionForm_on_cancel s = (SystemExit 0, s)"

definition get_identity :: "app \<Rightarrow> error + stix_obj option" where
  "get_identity s =
     (case get_selected_objects (identity_values s) (identity_value s) of
        Inl e \<Rightarrow> Inl e
      | Inr None \<Rightarrow> Inr None
      | Inr (Some objects) \<Rightarrow>
          if objects \<noteq> [] then unpack1 objects else Inr None)"

definition IdentitySelection_actionHighlighted ::
    "stix_obj option \<Rightarrow> nat \<Rightarrow> app \<Rightarrow> outcome \<times> app" where
  "IdentitySelection_actionHighlighted act_on_this key_press s =
     (case get_identity s of
        Inl e \<Rightarrow> (Raised e, s)
      | Inr None \<Rightarrow> switchForm ''NEW_IDENTITY'' s
      | Inr (Some ident) \<Rightarrow> on_identity_selected ident s)"

subsection \<open>The identity entry form\<close>

definition IdentityEntryForm_on_cancel :: "app \<Rightarrow> outcome \<times> app" where
  "IdentityEntryForm_on_cancel s = switchForm ''IDENTITIES'' s"

definition IdentityEntryForm_on_ok :: "string \<Rightarrow> datetime \<Rightarrow> app \<Rightarrow> outcome \<times> app" where
  "IdentityEntryForm_on_ok new_id now s =
     on_identity_selected
       (Identity new_id now ''individual'' (entry_name s) (entry_email s)) s"

subsection \<open>The indicator selection form\<close>

definition IndicatorSelectionForm_on_cancel :: "app \<Rightarrow> outcome \<times> app" where
  "IndicatorSelectionForm_on_cancel s = switchForm ''IDENTITIES'' s"

definition IndicatorEvaluationForm_set_indicator :: "stix_obj option \<Rightarrow> app \<Rightarrow> app" where
  "IndicatorEvaluationForm_set_indicator ind s =
     (case ind of
        None \<Rightarrow> s
      | Some i \<Rightarrow>
          s\<lparr>eval_indicator := Some i,
            eval_name := ''Evaluate Indicator: '' @ name i @ '' '' @ obj_id i\<rparr>)"

definition IndicatorSelection_actionHighlighted ::
    "stix_obj option \<Rightarrow> nat \<Rightarrow> app \<Rightarrow> outcome \<times> app" where
  "IndicatorSelection_actionHighlighted ind key_press s =
     (if ''EVALUATION'' \<in> set (forms s)
      then switchForm ''EVALUATION'' (IndicatorEvaluationForm_set_indicator ind s)
      else (Raised (KeyError ''EVALUATION''), s))"

subsection \<open>The evaluation form\<close>

definition OpinionSelectOne_display_value :: "string \<Rightarrow> string" where
  "OpinionSelectOne_display_value option = title (replace CHR ''-'' CHR '' '' option)"

definition get_opinion :: "app \<Rightarrow> error + string" where
  "get_opinion s =
     (case SelectOne_get_selected_objects (opinion_values s) (opinion_value s) of
        Inl e \<Rightarrow> Inl e
      | Inr objects \<Rightarrow> unpack1 objects)"

definition OpinionMenu_value :: "app \<Rightarrow> error + string" where
  "OpinionMenu_value s = get_opinion s"

text \<open>
  \<open>handle_save\<close> of \<open>judge_intel\<close>: \<open>add_opinion\<close> has no body, \<open>save_bundle\<close> writes
  the bundle.
\<close>

definition handle_save ::
    "(bool \<Rightarrow> stix_obj list \<Rightarrow> string) \<Rightarrow> stix_obj \<Rightarrow> app \<Rightarrow> outcome \<times> app" where
  "handle_save serialize op s =
     (case save_bundle serialize (bundle_objects s) (output_target s) (file_store s) of
        Inl e \<Rightarrow> (Raised e, s)
      | Inr (out, fs) \<Rightarrow> (Running, s\<lparr>output_target := out, file_store := fs\<rparr>))"

definition IndicatorEvaluationForm_on_ok ::
    "(bool \<Rightarrow> stix_obj list \<Rightarrow> string) \<Rightarrow> string \<Rightarrow> datetime \<Rightarrow> app \<Rightarrow> outcome \<times> app" where
  "IndicatorEvaluationForm_on_ok serialize new_id now s =
     (case OpinionMenu_value s of
        Inl e \<Rightarrow> (Raised e, s)
      | Inr v \<Rightarrow>
          (case Opinion new_id now [eval_indicator s] v (explanation_value s) of
             Inl e \<Rightarrow> (Raised e, s)
           | Inr op \<Rightarrow>
               (case handle_save serialize op
                       (s\<lparr>bundle_objects := bundle_objects s @ [op]\<rparr>) of
                  (Running, s') \<Rightarrow> (SystemExit 0, s')
                | (r, s') \<Rightarrow> (r, s'))))"

definition IndicatorEvaluationForm_on_cancel :: "app \<Rightarrow> outcome \<times> app" where
  "IndicatorEvaluationForm_on_cancel s = switchForm ''MAIN'' s"

section \<open>A small bundle for concrete runs\<close>

definition t0 :: datetime where
  "t0 = (2018, 3, 9, 7, 5, 1, 0)"

definition t1 :: datetime where
  "t1 = (2018, 3, 10, 18, 30, 0, 0)"

definition alice :: stix_obj where
  "alice = Identity ''identity--a'' t0 ''individual'' ''Alice'' ''alice@example.org''"

definition ind1 :: stix_obj where
  "ind1 = \<lparr>obj_type = ''indicator'', obj_id = ''indicator--1'', name = ''Bad URL'',
           identity_class = [], contact_information = [], object_refs = [], opinion = [],
           explanation = [], created = t0, created_by_ref = None\<rparr>"

definition allowed_opinions :: "string list" where
  "allowed_opinions =
     [''strongly-disagree'', ''disagree'', ''neutral'', ''agree'', ''strongly-agree'']"

definition compact :: "bool \<Rightarrow> stix_obj list \<Rightarrow> string" where
  "compact pretty objects = concat (map (\<lambda>obj. obj_id obj @ '';'') objects)"

text \<open>
  A disk that holds the input file and lets only that file be written; the application
  is started on it without an output option.
\<close>

definition disk :: file_system where
  "disk = \<lparr>contents = [''in.json'' \<mapsto> ''old content of the input file''],
           writable = (\<lambda>path. path = ''in.json'')\<rparr>"

definition started :: app where
  "started = onStart allowed_opinions
     (IndicatorEvaluationApplication [alice, ind1]
        (Opened \<lparr>fh_name = ''in.json'', fh_mode = ''r+'', fh_pos = 0\<rparr>) disk)"

text \<open>
  One authoring session on that bundle: Alice is check-marked and activated on the
  identity screen, the indicator is activated on the indicator screen, "agree" and an
  explanation are entered, and the evaluation is confirmed.
\<close>

definition chosen :: app where
  "chosen = snd (IdentitySelection_actionHighlighted (Some alice) 0
                   (started\<lparr>identity_value := [1]\<rparr>))"

definition evaluating :: app where
  "evaluating =
     (snd (IndicatorSelection_actionHighlighted (Some ind1) 0 chosen))
       \<lparr>opinion_value := [3], explanation_value := ''works well''\<rparr>"

definition saved :: app where
  "saved = snd (IndicatorEvaluationForm_on_ok compact ''opinion--x'' t1 evaluating)"

definition viewer :: "stix_obj list \<Rightarrow> viewer_form" where
  "viewer objects =
     \<lparr>viewer_store = MemoryStore objects, viewer_indicator = None,
      buffer_name = [], buffer_values = []\<rparr>"

text \<open>An opinion by Alice on the indicator, with an explanation of two lines.\<close>

definition op1 :: stix_obj where
  "op1 = \<lparr>obj_type = ''opinion'', obj_id = ''opinion--1'', name = [],
          identity_class = [], contact_information = [],
          object_refs = [''indicator--1''], opinion = ''strongly-agree'',
          explanation = ''first\<newline>second'', created = t1,
          created_by_ref = Some ''identity--a''\<rparr>"

section \<open>Properties of the review query\<close>

lemma query_opinions:
  "query store [Filter ''type'' ''='' ''opinion'',
                Filter ''object_refs'' ''contains'' i] =
   filter (\<lambda>obj. obj_type obj = ''opinion'' \<and> i \<in> set (object_refs obj)) store"
  by (simp add: query_def)

lemma set_sort_reverse: "set (sort_reverse key xs) = set xs"
  by (simp add: sort_reverse_def)

lemma sort_reverse_stable:
  "filter (\<lambda>y. key y = k) (sort_reverse key xs) = filter (\<lambda>y. key y = k) xs"
proof -
  have "filter (\<lambda>y. key y = k) (sort_reverse key xs) =
        rev (filter (\<lambda>y. key y = k) (sort_key key (rev xs)))"
    by (simp add: sort_reverse_def rev_filter)
  also have "\<dots> = rev (filter (\<lambda>y. key y = k) (rev xs))"
    by (simp only: sort_key_stable)
  also have "\<dots> = filter (\<lambda>y. key y = k) xs"
    by (simp add: rev_filter)
  finally show ?thesis .
qed

lemma sort_reverse_descending:
  "sorted_wrt (\<lambda>a b. key b \<le> key a) (sort_reverse key xs)"
proof -
  have "sorted (map key (sort_key key (rev xs)))"
    by simp
  then have "sorted_wrt (\<lambda>a b. key a \<le> key b) (sort_key key (rev xs))"
    by (simp only: sorted_wrt_map)
  then show ?thesis
    by (simp add: sort_reverse_def sorted_wrt_rev)
qed

text \<open>
  C2. For every bundle and every indicator, the review query returns exactly the bundle
  objects of type opinion whose \<open>object_refs\<close> contains the indicator's identifier:
  nothing else is returned and none of them is left out.
\<close>

theorem opinionsFor_exact:
  "set (opinionsFor (MemoryStore B) I) =
     {obj. obj \<in> set B \<and> obj_type obj = ''opinion'' \<and> obj_id I \<in> set (object_refs obj)}"
  unfolding opinionsFor_def MemoryStore_def query_opinions set_sort_reverse
  by auto

text \<open>
  C3. The sequence returned by the review query is non-increasing in the creation
  timestamp, and the opinions that share a timestamp appear in the order in which the
  bundle holds them.
\<close>

theorem opinionsFor_sorted_stable:
  "sorted_wrt (\<lambda>a b. created b \<le> created a) (opinionsFor (MemoryStore B) I) \<and>
   filter (\<lambda>obj. created obj = t) (opinionsFor (MemoryStore B) I) =
     filter (\<lambda>obj. created obj = t)
       (filter (\<lambda>obj. obj_type obj = ''opinion'' \<and> obj_id I \<in> set (object_refs obj)) B)"
  unfolding opinionsFor_def MemoryStore_def query_opinions
  by (simp only: sort_reverse_descending sort_reverse_stable simp_thms)

section \<open>Properties of the renderer\<close>

lemmas render_defs = viewer_def IndicatorViewerForm_set_indicator_def opinionsFor_def
  query_def sort_reverse_def MemoryStore_def creator_of_def store_get_def

text \<open>
  Rendering is a function of the store and the indicator only: the buffer is cleared
  first, so that showing the same indicator again leaves the form as it is.
\<close>

lemma set_indicator_again:
  assumes "IndicatorViewerForm_set_indicator (Some i) form = Inr form'"
  shows "IndicatorViewerForm_set_indicator (Some i) form' = Inr form'"
proof -
  obtain buf where
    r: "render_opinions (viewer_store form) (opinionsFor (viewer_store form) i) [] = Inr buf"
    and f: "form' = form\<lparr>viewer_indicator := Some i,
               buffer_name := ''Opinions: '' @ name i @ '' ('' @ obj_id i @ '')'',
               buffer_values := buf\<rparr>"
    using assms by (auto simp: IndicatorViewerForm_set_indicator_def split: sum.splits)
  show ?thesis
    by (simp add: IndicatorViewerForm_set_indicator_def f r)
qed

text \<open>
  The rendered explanation is never the text in which each line carries the indent
  once: it is longer by one indent, which stands in front of the first line.
\<close>

lemma explanation_text_not_uniform:
  "explanation_text op \<noteq>
     join [CHR 0x0A] (map (\<lambda>line. indent @ line) (splitlines (explanation op)))"
proof
  assume "explanation_text op =
     join [CHR 0x0A] (map (\<lambda>line. indent @ line) (splitlines (explanation op)))"
  then have "length (explanation_text op) =
     length (join [CHR 0x0A] (map (\<lambda>line. indent @ line) (splitlines (explanation op))))"
    by simp
  then show False
    by (simp add: explanation_text_def indent_def)
qed

text \<open>
  C8. On the opinion \<open>op1\<close>, whose explanation has the two lines "first" and "second",
  the renderer emits the header with the creator's name and title-cased class, the
  title-cased opinion value, the timestamp as YYYY-MM-DD HH:MM:SS and two closing empty
  lines, but the explanation is not indented evenly: its first line carries the indent
  twice (eight blanks), its second line once (four blanks).
\<close>

theorem render_first_line_indented_twice:
  "IndicatorViewerForm_set_indicator (Some ind1) (viewer [alice, ind1, op1]) =
     Inr \<lparr>viewer_store = [alice, ind1, op1], viewer_indicator = Some ind1,
          buffer_name = ''Opinions: Bad URL (indicator--1)'',
          buffer_values =
            [''# Alice (Individual)'',
             ''  Opinion on effectiveness: Strongly Agree'',
             ''  Evaluated at: 2018-03-10 18:30:00'',
             [],
             ''        first\<newline>    second'',
             [],
             []]\<rparr> \<and>
   join [CHR 0x0A] (map (\<lambda>line. indent @ line) (splitlines (explanation op1))) =
     ''    first\<newline>    second''"
  by code_simp

section \<open>Properties of the authoring workflow\<close>

lemmas run_defs = chosen_def evaluating_def saved_def started_def onStart_def
  IndicatorEvaluationApplication_def IdentitySelection_actionHighlighted_def get_identity_def
  get_selected_objects_def on_identity_selected_def set_identity_def switchForm_def
  IndicatorSelection_actionHighlighted_def IndicatorEvaluationForm_set_indicator_def
  IndicatorEvaluationForm_on_ok_def OpinionMenu_value_def get_opinion_def
  SelectOne_get_selected_objects_def Opinion_def handle_save_def save_bundle_def
  use_output_def open_file_def file_truncate_def file_write_def content_of_def
  alice_def ind1_def Identity_def allowed_opinions_def disk_def

text \<open>Saving to an output path that cannot be opened fails, and writes nothing.\<close>

lemma save_bundle_unopenable:
  "\<not> writable fs path \<Longrightarrow> save_bundle serialize objs (Lazy path) fs = Inl (FileError path)"
  by (simp add: save_bundle_def use_output_def open_file_def)

text \<open>No opinion that the constructor call of \<open>on_ok\<close> builds names a creator.\<close>

lemma Opinion_created_by_ref:
  "Opinion new_id now refs v text = Inr op \<Longrightarrow> created_by_ref op = None"
  by (auto simp: Opinion_def split: sum.splits)

text \<open>Every identity handed to \<open>on_identity_selected\<close> is appended to the bundle.\<close>

lemma on_identity_selected_appends:
  "bundle_objects (snd (on_identity_selected ident s)) = bundle_objects s @ [ident]"
  by (simp add: on_identity_selected_def set_identity_def switchForm_def)

text \<open>
  C1. In the session on the example bundle the identity Alice is resolved first and the
  evaluation is confirmed and saved, yet the one opinion of the saved bundle has no
  \<open>created_by_ref\<close>; the review of that bundle for the indicator fails with
  \<open>AttributeError\<close>, because no creator can be resolved.
\<close>

theorem session_opinion_has_no_creator:
  "identity evaluating = Some alice \<and>
   fst (IndicatorEvaluationForm_on_ok compact ''opinion--x'' t1 evaluating) = SystemExit 0 \<and>
   map created_by_ref
     (filter (\<lambda>obj. obj_type obj = ''opinion'') (bundle_objects saved)) = [None] \<and>
   IndicatorViewerForm_set_indicator (Some ind1) (viewer (bundle_objects saved)) =
     Inl AttributeError"
  by (simp add: run_defs render_defs Let_def)

text \<open>
  C4. Selecting the identity that the bundle already holds appends it a second time:
  the bundle grows from two objects to three, and its object identifiers are no longer
  unique.
\<close>

theorem existing_identity_appended_again:
  "bundle_objects started = [alice, ind1] \<and>
   bundle_objects chosen = [alice, ind1, alice] \<and>
   \<not> distinct (map obj_id (bundle_objects chosen))"
  by (simp add: run_defs)

text \<open>
  C5. After \<open>onStart\<close> the cancel handlers of the identity entry form and of the
  indicator selection form both ask for the form id IDENTITIES, which is not
  registered, so both end in \<open>KeyError\<close>; the cancel handler of the evaluation form
  asks for MAIN and keeps the workflow running.
\<close>

theorem cancel_switches_to_unregistered_form:
  "fst (IdentityEntryForm_on_cancel (onStart allowed s)) = Raised (KeyError ''IDENTITIES'') \<and>
   fst (IndicatorSelectionForm_on_cancel (onStart allowed s)) =
     Raised (KeyError ''IDENTITIES'') \<and>
   IndicatorEvaluationForm_on_cancel (onStart allowed s) =
     (Running, (onStart allowed s)\<lparr>next_active_form := ''MAIN''\<rparr>)"
  by (simp add: IdentityEntryForm_on_cancel_def IndicatorSelectionForm_on_cancel_def
        IndicatorEvaluationForm_on_cancel_def switchForm_def onStart_def)

text \<open>
  C6. When one opinion value is selected and an indicator was chosen, confirming the
  evaluation appends one object to the bundle: an opinion whose \<open>object_refs\<close> is the
  one identifier of the chosen indicator, whose opinion is the selected value as it
  stands in the value list, and whose explanation is the entered text unchanged. The
  save callback is then run on the bundle with that opinion: where it succeeds the
  output is written and the process exits with status 0, where the output cannot be
  opened its error is raised and the opinion stays appended.
\<close>

theorem on_ok_constructs_opinion:
  assumes "opinion_value s = [i]" and "i < length (opinion_values s)"
    and "eval_indicator s = Some ind"
  shows "(let (r, s') = IndicatorEvaluationForm_on_ok serialize new_id now s;
              op = last (bundle_objects s')
          in bundle_objects s' = bundle_objects s @ [op] \<and>
             obj_type op = ''opinion'' \<and>
             object_refs op = [obj_id ind] \<and>
             opinion op = opinion_values s ! i \<and>
             explanation op = explanation_value s \<and>
             (case save_bundle serialize (bundle_objects s @ [op])
                     (output_target s) (file_store s) of
                Inr (out, fs) \<Rightarrow>
                  r = SystemExit 0 \<and> output_target s' = out \<and> file_store s' = fs
              | Inl e \<Rightarrow>
                  r = Raised e \<and> output_target s' = output_target s \<and>
                  file_store s' = file_store s))"
proof -
  let ?op = "\<lparr>obj_type = ''opinion'', obj_id = new_id, name = [], identity_class = [],
               contact_information = [], object_refs = [obj_id ind],
               opinion = opinion_values s ! i, explanation = explanation_value s,
               created = now, created_by_ref = None\<rparr>"
  let ?s1 = "s\<lparr>bundle_objects := bundle_objects s @ [?op]\<rparr>"
  have v: "OpinionMenu_value s = Inr (opinion_values s ! i)"
    using assms
    by (simp add: OpinionMenu_value_def get_opinion_def SelectOne_get_selected_objects_def)
  have c: "Opinion new_id now [eval_indicator s] (opinion_values s ! i) (explanation_value s) =
             Inr ?op"
    using assms by (simp add: Opinion_def)
  have run: "IndicatorEvaluationForm_on_ok serialize new_id now s =
          (case handle_save serialize ?op ?s1 of
             (Running, s') \<Rightarrow> (SystemExit 0, s')
           | (r, s') \<Rightarrow> (r, s'))"
    by (simp add: IndicatorEvaluationForm_on_ok_def v c)
  show ?thesis
  proof (cases "save_bundle serialize (bundle_objects s @ [?op])
                  (output_target s) (file_store s)")
    case (Inl e)
    then have "IndicatorEvaluationForm_on_ok serialize new_id now s = (Raised e, ?s1)"
      by (simp add: run handle_save_def)
    then show ?thesis
      by (simp add: Inl)
  next
    case (Inr written)
    obtain out fs where w: "written = (out, fs)"
      by (cases written)
    have "IndicatorEvaluationForm_on_ok serialize new_id now s =
            (SystemExit 0, ?s1\<lparr>output_target := out, file_store := fs\<rparr>)"
      by (simp add: run handle_save_def Inr w)
    then show ?thesis
      by (simp add: Inr w)
  qed
qed

theorem on_ok_constructs_opinion_witness:
  "opinion_value evaluating = [3] \<and> 3 < length (opinion_values evaluating) \<and>
   eval_indicator evaluating = Some ind1 \<and>
   fst (IndicatorEvaluationForm_on_ok compact ''opinion--x'' t1 evaluating) = SystemExit 0 \<and>
   map object_refs (bundle_objects saved) = [[], [], [], [''indicator--1'']] \<and>
   opinion (last (bundle_objects saved)) = ''agree'' \<and>
   explanation (last (bundle_objects saved)) = ''works well'' \<and>
   contents (file_store saved) ''in.json'' =
     Some ''identity--a;indicator--1;identity--a;opinion--x;'' \<and>
   OpinionSelectOne_display_value ''strongly-agree'' = ''Strongly Agree''"
proof -
  have d: "OpinionSelectOne_display_value ''strongly-agree'' = ''Strongly Agree''"
    by code_simp
  show ?thesis
    using on_ok_constructs_opinion [of evaluating 3 ind1 compact "''opinion--x''" t1]
    by (simp add: run_defs compact_def Let_def d)
qed

text \<open>
  The same confirmation with an output path that cannot be opened: the error of the
  save is raised after the opinion was appended, and nothing is written.
\<close>

lemma on_ok_unopenable_output:
  "fst (IndicatorEvaluationForm_on_ok compact ''opinion--x'' t1
          (evaluating\<lparr>output_target := Lazy ''nodir/out.json''\<rparr>)) =
     Raised (FileError ''nodir/out.json'') \<and>
   map obj_id (bundle_objects (snd (IndicatorEvaluationForm_on_ok compact ''opinion--x'' t1
          (evaluating\<lparr>output_target := Lazy ''nodir/out.json''\<rparr>)))) =
     [''identity--a'', ''indicator--1'', ''identity--a'', ''opinion--x''] \<and>
   contents (file_store (snd (IndicatorEvaluationForm_on_ok compact ''opinion--x'' t1
          (evaluating\<lparr>output_target := Lazy ''nodir/out.json''\<rparr>)))) =
     contents disk"
  by (simp add: run_defs)

text \<open>
  C7. Without an output option \<open>judge_intel\<close> reopens the input file itself with mode
  \<open>r+\<close>, at position 0 and with its content untouched; with the option the output is
  the given path, opened for writing when first used. If the input file exists and the
  target can be written, saving leaves exactly the pretty-printed serialization of the
  bundle in the target, whatever the target held before, and the file object stands
  behind the text written.
\<close>

theorem save_replaces_target:
  assumes "contents fs input_name = Some c"
    and "writable fs (case output_name of None \<Rightarrow> input_name | Some path \<Rightarrow> path)"
  shows "judge_intel_output input_name output_name fs =
           Inr (case output_name of
                  None \<Rightarrow> Opened \<lparr>fh_name = input_name, fh_mode = ''r+'', fh_pos = 0\<rparr>
                | Some path \<Rightarrow> Lazy path, fs) \<and>
         (case judge_intel_output input_name output_name fs of
            Inl e \<Rightarrow> False
          | Inr (out, fs1) \<Rightarrow>
              (case save_bundle serialize objs out fs1 of
                 Inl e \<Rightarrow> False
               | Inr (out', fs2) \<Rightarrow>
                   contents fs2 (case output_name of None \<Rightarrow> input_name | Some path \<Rightarrow> path) =
                     Some (serialize True objs) \<and>
                   out' = Opened
                     \<lparr>fh_name = (case output_name of None \<Rightarrow> input_name | Some path \<Rightarrow> path),
                      fh_mode = (case output_name of None \<Rightarrow> ''r+'' | Some path \<Rightarrow> ''w''),
                      fh_pos = length (serialize True objs)\<rparr>))"
  using assms
  by (cases output_name)
     (simp_all add: judge_intel_output_def save_bundle_def open_file_def use_output_def
        file_truncate_def file_write_def content_of_def Let_def)

theorem save_replaces_target_witness:
  "contents disk ''in.json'' = Some ''old content of the input file'' \<and>
   writable disk ''in.json'' \<and>
   judge_intel_output ''in.json'' None disk =
     Inr (Opened \<lparr>fh_name = ''in.json'', fh_mode = ''r+'', fh_pos = 0\<rparr>, disk) \<and>
   (case judge_intel_output ''in.json'' None disk of
      Inl e \<Rightarrow> False
    | Inr (out, fs1) \<Rightarrow>
        (case save_bundle compact [alice, ind1] out fs1 of
           Inl e \<Rightarrow> False
         | Inr (out', fs2) \<Rightarrow>
             contents fs2 ''in.json'' = Some ''identity--a;indicator--1;'' \<and>
             out' = Opened \<lparr>fh_name = ''in.json'', fh_mode = ''r+'', fh_pos = 25\<rparr>))"
  using save_replaces_target
          [of disk "''in.json''" "''old content of the input file''" None compact "[alice, ind1]"]
  by (simp add: disk_def compact_def alice_def ind1_def Identity_def judge_intel_output_def
        save_bundle_def open_file_def use_output_def file_truncate_def file_write_def
        content_of_def Let_def)

text \<open>
  Without the output option a missing input file is not created: the reopening fails.
\<close>

lemma judge_intel_output_missing_input:
  "contents fs input_name = None \<Longrightarrow>
   judge_intel_output input_name None fs = Inl (FileNotFoundError input_name)"
  by (simp add: judge_intel_output_def open_file_def)

text \<open>
  C9. Confirming the evaluation while no opinion value is selected raises (the
  unpacking of the empty selection fails with \<open>ValueError\<close>) and leaves the whole
  state as it was: no object is appended to the bundle and nothing is written.
\<close>

theorem on_ok_without_selection_raises:
  assumes "opinion_value s = []"
  shows "IndicatorEvaluationForm_on_ok serialize new_id now s = (Raised ValueError, s)"
  using assms
  by (simp add: IndicatorEvaluationForm_on_ok_def OpinionMenu_value_def get_opinion_def
        SelectOne_get_selected_objects_def)

theorem on_ok_without_selection_raises_witness:
  "opinion_value (evaluating\<lparr>opinion_value := []\<rparr>) = [] \<and>
   fst (IndicatorEvaluationForm_on_ok compact ''opinion--x'' t1
          (evaluating\<lparr>opinion_value := []\<rparr>)) = Raised ValueError \<and>
   bundle_objects (snd (IndicatorEvaluationForm_on_ok compact ''opinion--x'' t1
          (evaluating\<lparr>opinion_value := []\<rparr>))) = [alice, ind1, alice] \<and>
   contents (file_store (snd (IndicatorEvaluationForm_on_ok compact ''opinion--x'' t1
          (evaluating\<lparr>opinion_value := []\<rparr>)))) ''in.json'' =
     Some ''old content of the input file''"
  using on_ok_without_selection_raises
          [of "evaluating\<lparr>opinion_value := []\<rparr>" compact "''opinion--x''" t1]
  by (simp add: run_defs)

text \<open>
  C10. The value list of the identity selection starts with the \<open>None\<close> that stands
  for a new identity. With no row check-marked \<open>get_identity\<close> yields \<open>None\<close>, and
  activating any row, also the row of an existing identity, switches to the form
  NEW_IDENTITY and selects nothing.
\<close>

theorem unchecked_activation_opens_new_identity:
  assumes "identity_value s = []" and "''NEW_IDENTITY'' \<in> set (forms s)"
  shows "identity_values (onStart allowed s) =
           None # map Some (filter (\<lambda>obj. obj_type obj = ''identity'') (bundle_objects s)) \<and>
         get_identity s = Inr None \<and>
         IdentitySelection_actionHighlighted (Some ident) key_press s =
           (Running, s\<lparr>next_active_form := ''NEW_IDENTITY''\<rparr>)"
  using assms
  by (simp add: onStart_def IdentitySelection_actionHighlighted_def get_identity_def
        get_selected_objects_def switchForm_def)

theorem unchecked_activation_opens_new_identity_witness:
  "identity_value started = [] \<and> ''NEW_IDENTITY'' \<in> set (forms started) \<and>
   identity_values started = [None, Some alice] \<and>
   get_identity started = Inr None \<and>
   IdentitySelection_actionHighlighted (Some alice) 0 started =
     (Running, started\<lparr>next_active_form := ''NEW_IDENTITY''\<rparr>) \<and>
   identity (snd (IdentitySelection_actionHighlighted (Some alice) 0 started)) = None"
  using unchecked_activation_opens_new_identity [of started allowed_opinions alice 0]
  by (simp add: started_def onStart_def IndicatorEvaluationApplication_def alice_def ind1_def
        Identity_def)

end
